theory Spec2Isabelle
  imports Complex_Main "HOL-Library.AList"
begin

section \<open>Data model of \<open>core/execution.py\<close>\<close>

text \<open>
  The development embeds the three entry points of \<open>core/execution.py\<close>
  (\<open>sell_puts\<close>, \<open>sell_calls\<close>, \<open>manage_open_puts\<close>).
  Python floats are read as real numbers and Python integers as \<open>int\<close>; an attribute
  that may be missing or \<open>None\<close> is an \<open>option\<close>.  Every exception is a value.
\<close>

datatype value_error =
    Not_enough_shares string int
  | Empty_argmax

datatype error =
    ValueError value_error
  | AttributeError string
  | IndexError
  | ZeroDivisionError
  | Raised string

datatype asset_class = US_EQUITY | US_OPTION | CRYPTO

record position =
  symbol :: string
  qty :: int
  avg_entry_price :: real
  asset_class :: asset_class

record quote =
  bid_price :: "real option"
  ask_price :: "real option"

record trade =
  price :: real

record snapshot =
  latest_quote :: "quote option"
  latest_trade :: "trade option"

record put_detail =
  d_underlying :: string
  d_strike :: real
  d_qty :: int
  d_avg_entry_price :: real
  d_position :: position

datatype reason = profit_target | loss_limit

type_synonym decision = "put_detail \<times> reason \<times> real"

datatype order_side = BUY | SELL
datatype order_type = MARKET | LIMIT
datatype time_in_force = DAY | GTC

record market_order_request =
  o_symbol :: string
  o_qty :: int
  o_side :: order_side
  o_type :: order_type
  o_time_in_force :: time_in_force

record closed_position =
  r_symbol :: string
  r_underlying :: string
  r_strike :: real
  r_reason :: reason
  r_pnl :: real
  r_premium_collected :: real
  r_order_id :: string

record option_contract =
  oc_symbol :: string

text \<open>
  Of the class \<open>Contract\<close> (\<open>models/contract.py\<close>) the file under study reads the
  attributes \<open>symbol\<close> and \<open>strike\<close> only.
\<close>

record contract =
  c_symbol :: string
  strike :: real

subsection \<open>Log records\<close>

datatype level = INFO | WARNING | ERROR

datatype log_msg =
    Searching_for_puts
  | No_symbols_with_buying_power
  | Scoring_puts
  | Selling_put string
  | No_put_options
  | Not_enough_shares_msg string int
  | Searching_for_calls string
  | Selling_call string
  | No_viable_calls string
  | No_open_puts
  | Managing nat
  | Could_not_parse string string
  | No_valid_puts
  | Failed_stock_prices string
  | Failed_option_snapshots string
  | No_stock_price string
  | No_option_price string
  | No_price_data string
  | Status string real real real real real real
  | Profit_target_reached string real real real
  | Loss_limit_reached string real real real
  | Buying_back string reason real
  | Submitted_close string string
  | Failed_to_close string string
  | Closed_count nat nat

datatype strat_entry =
    Filtered_symbols "string list"
  | Put_options "contract list"
  | Sold_puts "contract list"
  | Call_options "contract list"
  | Sold_calls contract
  | Closed_puts "closed_position list"

subsection \<open>The world: brokerage state and the two logs\<close>

record 's world =
  broker :: 's
  logger :: "(level \<times> log_msg) list"
  strat_log :: "strat_entry list"

definition say :: "level \<Rightarrow> log_msg \<Rightarrow> 's world \<Rightarrow> 's world" where
  "say lvl m w = w\<lparr>logger := logger w @ [(lvl, m)]\<rparr>"

definition record_strat :: "strat_entry \<Rightarrow> 's world \<Rightarrow> 's world" where
  "record_strat e w = w\<lparr>strat_log := strat_log w @ [e]\<rparr>"

text \<open>
  The brokerage client.  Every call may change the brokerage state and may raise; an
  exception of the collaborator is \<open>Inl\<close> of its message.  \<open>list(set(underlyings))\<close>
  has no specified order, so \<open>get_stock_latest_trade\<close> receives the set.
\<close>

record 's client =
  get_positions :: "'s \<Rightarrow> (string + position list) \<times> 's"
  get_stock_latest_trade :: "string set \<Rightarrow> 's \<Rightarrow> (string + (string \<rightharpoonup> trade)) \<times> 's"
  get_option_snapshot :: "string list \<Rightarrow> 's \<Rightarrow> (string + (string \<rightharpoonup> snapshot)) \<times> 's"
  get_options_contracts :: "string list \<Rightarrow> string \<Rightarrow> 's \<Rightarrow> (string + option_contract list) \<times> 's"
  market_sell :: "string \<Rightarrow> 's \<Rightarrow> (string + unit) \<times> 's"
  submit_order :: "market_order_request \<Rightarrow> 's \<Rightarrow> (string + string) \<times> 's"

section \<open>\<open>manage_open_puts\<close>\<close>

subsection \<open>Price resolution\<close>

text \<open>Python truthiness of a price: \<open>None\<close> and \<open>0\<close> are falsy.\<close>

fun truthy :: "real option \<Rightarrow> bool" where
  "truthy None = False"
| "truthy (Some x) = (x \<noteq> 0)"

text \<open>\<open>x or 0\<close>\<close>

fun or_zero :: "real option \<Rightarrow> real" where
  "or_zero None = 0"
| "or_zero (Some x) = (if x \<noteq> 0 then x else 0)"

text \<open>
  Lines 150 to 159: the price of the option, or \<open>None\<close> where the source logs
  "No price data available" and continues.
\<close>

definition current_option_price :: "snapshot \<Rightarrow> real option" where
  "current_option_price option_snapshot =
     (case latest_quote option_snapshot of
        Some q \<Rightarrow>
          (case (bid_price q, ask_price q) of
             (Some b, Some a) \<Rightarrow>
               if b \<noteq> 0 \<and> a \<noteq> 0 then Some ((b + a) / 2) else Some (or_zero (ask_price q))
           | _ \<Rightarrow> Some (or_zero (ask_price q)))
      | None \<Rightarrow>
          (case latest_trade option_snapshot of
             Some t \<Rightarrow> Some (price t)
           | None \<Rightarrow> None))"

subsection \<open>P&L and the closure test\<close>

text \<open>Python's \<open>/\<close> on floats raises on a zero divisor.\<close>

definition truediv :: "real \<Rightarrow> real \<Rightarrow> error + real" where
  "truediv a b = (if b = 0 then Inl ZeroDivisionError else Inr (a / b))"

definition pnl_percentage :: "real \<Rightarrow> real \<Rightarrow> error + real" where
  "pnl_percentage premium_collected unrealized_pnl =
     (if premium_collected > 0 then truediv unrealized_pnl premium_collected else Inr 0)"

text \<open>Lines 172 to 191: the decision for a position whose P&L percentage is known.\<close>

definition closure :: "real \<Rightarrow> real \<Rightarrow> reason option" where
  "closure target_pct pnl_pct =
     (if \<bar>pnl_pct\<bar> \<ge> target_pct
      then (if pnl_pct \<ge> target_pct then Some profit_target else Some loss_limit)
      else None)"

text \<open>One iteration of the loop of lines 129 to 191.\<close>

definition evaluate_position ::
  "real \<Rightarrow> (string \<rightharpoonup> trade) \<Rightarrow> (string \<rightharpoonup> snapshot) \<Rightarrow> string \<times> put_detail \<Rightarrow>
     's world \<Rightarrow> (error + decision option) \<times> 's world" where
  "evaluate_position target_pct stock_prices option_snapshots item w =
     (let option_symbol = fst item; details = snd item;
          underlying = d_underlying details;
          premium_collected = d_avg_entry_price details
      in case stock_prices underlying of
           None \<Rightarrow> (Inr None, say WARNING (No_stock_price underlying) w)
         | Some st \<Rightarrow>
        (case option_snapshots option_symbol of
           None \<Rightarrow> (Inr None, say WARNING (No_option_price option_symbol) w)
         | Some option_snapshot \<Rightarrow>
        (case current_option_price option_snapshot of
           None \<Rightarrow> (Inr None, say WARNING (No_price_data option_symbol) w)
         | Some cur \<Rightarrow>
        (let unrealized_pnl = premium_collected - cur
         in case pnl_percentage premium_collected unrealized_pnl of
              Inl e \<Rightarrow> (Inl e, w)
            | Inr pct \<Rightarrow>
           (let w1 = say INFO (Status option_symbol (price st) (d_strike details)
                                 premium_collected cur unrealized_pnl pct) w
            in case closure target_pct pct of
                 None \<Rightarrow> (Inr None, w1)
               | Some profit_target \<Rightarrow>
                   (Inr (Some (details, profit_target, unrealized_pnl)),
                    say INFO (Profit_target_reached option_symbol pct target_pct unrealized_pnl) w1)
               | Some loss_limit \<Rightarrow>
                   (Inr (Some (details, loss_limit, unrealized_pnl)),
                    say INFO (Loss_limit_reached option_symbol pct target_pct unrealized_pnl) w1))))))"

fun evaluate_loop ::
  "real \<Rightarrow> (string \<rightharpoonup> trade) \<Rightarrow> (string \<rightharpoonup> snapshot) \<Rightarrow> (string \<times> put_detail) list \<Rightarrow>
     decision list \<Rightarrow> 's world \<Rightarrow> (error + decision list) \<times> 's world" where
  "evaluate_loop target_pct stock_prices option_snapshots [] positions_to_close w =
     (Inr positions_to_close, w)"
| "evaluate_loop target_pct stock_prices option_snapshots (item # items) positions_to_close w =
     (case evaluate_position target_pct stock_prices option_snapshots item w of
        (Inl e, w') \<Rightarrow> (Inl e, w')
      | (Inr None, w') \<Rightarrow>
          evaluate_loop target_pct stock_prices option_snapshots items positions_to_close w'
      | (Inr (Some d), w') \<Rightarrow>
          evaluate_loop target_pct stock_prices option_snapshots items (positions_to_close @ [d]) w')"

subsection \<open>Parsing the positions\<close>

text \<open>
  \<open>parse_option_symbol\<close> (\<open>core/utils.py\<close>) is a parameter: it returns the underlying,
  the option type and the strike, or raises \<open>ValueError\<close> (\<open>Inl\<close> of its message).
  \<open>put_details\<close> is a Python dict: an association list in insertion order, where
  storing under a key already present replaces the value in place.
\<close>

type_synonym parser = "string \<Rightarrow> string + string \<times> string \<times> real"

definition short_option :: "position \<Rightarrow> bool" where
  "short_option p \<longleftrightarrow> asset_class p = US_OPTION \<and> qty p < 0"

definition make_detail :: "position \<Rightarrow> string \<Rightarrow> real \<Rightarrow> put_detail" where
  "make_detail p underlying strike_price =
     \<lparr>d_underlying = underlying, d_strike = strike_price, d_qty = \<bar>qty p\<bar>,
      d_avg_entry_price = \<bar>avg_entry_price p\<bar>, d_position = p\<rparr>"

text \<open>The loop of lines 92 to 106.\<close>

fun parse_loop ::
  "parser \<Rightarrow> position list \<Rightarrow> string list \<Rightarrow> (string \<times> put_detail) list \<Rightarrow> 's world \<Rightarrow>
     string list \<times> (string \<times> put_detail) list \<times> 's world" where
  "parse_loop parse_option_symbol [] underlyings put_details w = (underlyings, put_details, w)"
| "parse_loop parse_option_symbol (p # ps) underlyings put_details w =
     (case parse_option_symbol (symbol p) of
        Inl e \<Rightarrow>
          parse_loop parse_option_symbol ps underlyings put_details
            (say WARNING (Could_not_parse (symbol p) e) w)
      | Inr (underlying, option_type, strike_price) \<Rightarrow>
          if option_type = ''P''
          then parse_loop parse_option_symbol ps (underlyings @ [underlying])
                 (AList.update (symbol p) (make_detail p underlying strike_price) put_details) w
          else parse_loop parse_option_symbol ps underlyings put_details w)"

subsection \<open>Submitting the closing orders\<close>

definition close_order :: "string \<Rightarrow> int \<Rightarrow> market_order_request" where
  "close_order option_symbol q =
     \<lparr>o_symbol = option_symbol, o_qty = q, o_side = BUY, o_type = MARKET,
      o_time_in_force = DAY\<rparr>"

definition closed_record :: "decision \<Rightarrow> string \<Rightarrow> closed_position" where
  "closed_record d order_id =
     (case d of (details, reason, pnl) \<Rightarrow>
        \<lparr>r_symbol = symbol (d_position details), r_underlying = d_underlying details,
         r_strike = d_strike details, r_reason = reason, r_pnl = pnl,
         r_premium_collected = d_avg_entry_price details, r_order_id = order_id\<rparr>)"

text \<open>The loop of lines 195 to 226, with its \<open>try\<close> and \<open>except Exception\<close>.\<close>

fun close_loop ::
  "'s client \<Rightarrow> decision list \<Rightarrow> closed_position list \<Rightarrow> 's world \<Rightarrow>
     closed_position list \<times> 's world" where
  "close_loop client [] closed_positions w = (closed_positions, w)"
| "close_loop client (d # ds) closed_positions w =
     (case d of (details, reason, pnl) \<Rightarrow>
        (let option_symbol = symbol (d_position details);
             w1 = say INFO (Buying_back option_symbol reason pnl) w
         in case submit_order client (close_order option_symbol (d_qty details)) (broker w1) of
              (Inl e, s') \<Rightarrow>
                close_loop client ds closed_positions
                  (say ERROR (Failed_to_close option_symbol e) (w1\<lparr>broker := s'\<rparr>))
            | (Inr order_id, s') \<Rightarrow>
                close_loop client ds (closed_positions @ [closed_record d order_id])
                  (say INFO (Submitted_close option_symbol order_id) (w1\<lparr>broker := s'\<rparr>))))"

subsection \<open>The whole cycle\<close>

text \<open>Lines 229 to 234.\<close>

definition report ::
  "bool \<Rightarrow> nat \<Rightarrow> closed_position list \<Rightarrow> 's world \<Rightarrow> 's world" where
  "report strat_logger n_positions closed_positions w =
     say INFO (Closed_count (length closed_positions) n_positions)
       (if closed_positions \<noteq> [] \<and> strat_logger
        then record_strat (Closed_puts closed_positions) w else w)"

text \<open>
  \<open>strat_logger\<close> is \<open>True\<close> when a strategy logger object is passed and \<open>False\<close>
  when the argument is \<open>None\<close>.  The result is \<open>Inr None\<close> for a bare \<open>return\<close>,
  \<open>Inr (Some xs)\<close> for \<open>return closed_positions\<close>, and \<open>Inl\<close> for an exception that
  leaves the function.
\<close>

definition manage_open_puts ::
  "'s client \<Rightarrow> parser \<Rightarrow> real \<Rightarrow> bool \<Rightarrow> 's world \<Rightarrow>
     (error + closed_position list option) \<times> 's world" where
  "manage_open_puts client parse_option_symbol target_pct strat_logger w =
     (case get_positions client (broker w) of
        (Inl e, s0) \<Rightarrow> (Inl (Raised e), w\<lparr>broker := s0\<rparr>)
      | (Inr positions, s0) \<Rightarrow>
     (let w0 = w\<lparr>broker := s0\<rparr>;
          put_positions = filter short_option positions
      in if put_positions = [] then (Inr None, say INFO No_open_puts w0)
         else
     (case parse_loop parse_option_symbol put_positions [] []
             (say INFO (Managing (length put_positions)) w0) of
        (underlyings, put_details, w1) \<Rightarrow>
     if underlyings = [] then (Inr None, say INFO No_valid_puts w1)
     else
     (case get_stock_latest_trade client (set underlyings) (broker w1) of
        (Inl e, s1) \<Rightarrow> (Inr None, say ERROR (Failed_stock_prices e) (w1\<lparr>broker := s1\<rparr>))
      | (Inr stock_prices, s1) \<Rightarrow>
     (case get_option_snapshot client (map fst put_details) s1 of
        (Inl e, s2) \<Rightarrow> (Inr None, say ERROR (Failed_option_snapshots e) (w1\<lparr>broker := s2\<rparr>))
      | (Inr option_snapshots, s2) \<Rightarrow>
     (case evaluate_loop target_pct stock_prices option_snapshots put_details []
             (w1\<lparr>broker := s2\<rparr>) of
        (Inl e, w2) \<Rightarrow> (Inl e, w2)
      | (Inr positions_to_close, w2) \<Rightarrow>
     (case close_loop client positions_to_close [] w2 of
        (closed_positions, w3) \<Rightarrow>
          (Inr (Some closed_positions),
           report strat_logger (length put_positions) closed_positions w3))))))))"

section \<open>The selling workflow\<close>

text \<open>
  \<open>core/strategy.py\<close> and \<open>models/contract.py\<close> are parameters of the model.  The
  two helpers that receive the client thread the brokerage state and may raise; the
  others are functions of their arguments.
\<close>

record 's strategy =
  filter_underlying :: "'s client \<Rightarrow> string list \<Rightarrow> real \<Rightarrow> 's \<Rightarrow> (string + string list) \<times> 's"
  filter_options :: "contract list \<Rightarrow> real option \<Rightarrow> contract list"
  score_options :: "contract list \<Rightarrow> real list"
  select_options :: "contract list \<Rightarrow> real list \<Rightarrow> contract list"
  from_contract_snapshot :: "option_contract \<Rightarrow> snapshot \<Rightarrow> contract"
  from_contract :: "option_contract \<Rightarrow> 's client \<Rightarrow> 's \<Rightarrow> (string + contract) \<times> 's"

subsection \<open>\<open>sell_puts\<close>\<close>

text \<open>The loop of lines 34 to 41; \<open>Inr ()\<close> both at the \<open>break\<close> and at the end.\<close>

fun sell_loop ::
  "'s client \<Rightarrow> bool \<Rightarrow> contract list \<Rightarrow> real \<Rightarrow> 's world \<Rightarrow> (error + unit) \<times> 's world" where
  "sell_loop client strat_logger [] buying_power w = (Inr (), w)"
| "sell_loop client strat_logger (p # ps) buying_power w =
     (let buying_power' = buying_power - 100 * strike p
      in if buying_power' < 0 then (Inr (), w)
         else
           (let w1 = say INFO (Selling_put (c_symbol p)) w
            in case market_sell client (c_symbol p) (broker w1) of
                 (Inl e, s') \<Rightarrow> (Inl (Raised e), w1\<lparr>broker := s'\<rparr>)
               | (Inr u, s') \<Rightarrow>
                   sell_loop client strat_logger ps buying_power'
                     (if strat_logger then record_strat (Sold_puts [p]) (w1\<lparr>broker := s'\<rparr>)
                      else w1\<lparr>broker := s'\<rparr>)))"

text \<open>Line 26: the contracts that have a snapshot, converted.\<close>

definition with_snapshots ::
  "'s strategy \<Rightarrow> (string \<rightharpoonup> snapshot) \<Rightarrow> option_contract list \<Rightarrow> contract list" where
  "with_snapshots strategy snapshots option_contracts =
     List.map_filter
       (\<lambda>c. case snapshots (oc_symbol c) of
               None \<Rightarrow> None
             | Some sn \<Rightarrow> Some (from_contract_snapshot strategy c sn))
       option_contracts"

definition sell_puts ::
  "'s strategy \<Rightarrow> 's client \<Rightarrow> string list \<Rightarrow> real \<Rightarrow> bool \<Rightarrow> 's world \<Rightarrow>
     (error + unit) \<times> 's world" where
  "sell_puts strategy client allowed_symbols buying_power strat_logger w =
     (if allowed_symbols = [] \<or> buying_power \<le> 0 then (Inr (), w)
      else
     (let w0 = say INFO Searching_for_puts w
      in case filter_underlying strategy client allowed_symbols buying_power (broker w0) of
           (Inl e, s1) \<Rightarrow> (Inl (Raised e), w0\<lparr>broker := s1\<rparr>)
         | (Inr filtered_symbols, s1) \<Rightarrow>
     if \<not> strat_logger then (Inl (AttributeError ''set_filtered_symbols''), w0\<lparr>broker := s1\<rparr>)
     else
     (let w1 = record_strat (Filtered_symbols filtered_symbols) (w0\<lparr>broker := s1\<rparr>)
      in if length filtered_symbols = 0 then (Inr (), say INFO No_symbols_with_buying_power w1)
         else
     (case get_options_contracts client filtered_symbols ''put'' (broker w1) of
        (Inl e, s2) \<Rightarrow> (Inl (Raised e), w1\<lparr>broker := s2\<rparr>)
      | (Inr option_contracts, s2) \<Rightarrow>
     (case get_option_snapshot client (map oc_symbol option_contracts) s2 of
        (Inl e, s3) \<Rightarrow> (Inl (Raised e), w1\<lparr>broker := s3\<rparr>)
      | (Inr snapshots, s3) \<Rightarrow>
     (let put_options =
            filter_options strategy (with_snapshots strategy snapshots option_contracts) None;
          w2 = (if strat_logger then record_strat (Put_options put_options) (w1\<lparr>broker := s3\<rparr>)
                else w1\<lparr>broker := s3\<rparr>)
      in if put_options \<noteq> []
         then sell_loop client strat_logger
                (select_options strategy put_options (score_options strategy put_options))
                buying_power (say INFO Scoring_puts w2)
         else (Inr (), say INFO No_put_options w2)))))))"

subsection \<open>\<open>sell_calls\<close>\<close>

text \<open>
  \<open>numpy.argmax\<close> on a sequence of numbers: the index of the first occurrence of the
  maximum; \<open>ValueError\<close> on an empty sequence.
\<close>

fun argmax_from :: "real list \<Rightarrow> nat \<Rightarrow> nat \<Rightarrow> real \<Rightarrow> nat" where
  "argmax_from [] i best_i best = best_i"
| "argmax_from (x # xs) i best_i best =
     (if x > best then argmax_from xs (Suc i) i x else argmax_from xs (Suc i) best_i best)"

definition argmax :: "real list \<Rightarrow> error + nat" where
  "argmax scores =
     (case scores of
        [] \<Rightarrow> Inl (ValueError Empty_argmax)
      | x # xs \<Rightarrow> Inr (argmax_from xs 1 0 x))"

text \<open>Python's \<open>xs[i]\<close> for a non-negative index.\<close>

definition getitem :: "'a list \<Rightarrow> nat \<Rightarrow> error + 'a" where
  "getitem xs i = (if i < length xs then Inr (xs ! i) else Inl IndexError)"

text \<open>
  The comprehension of line 55: \<open>Contract.from_contract\<close> is applied to the fetched
  contracts in order, and the first exception ends it.
\<close>

fun from_contracts ::
  "'s strategy \<Rightarrow> 's client \<Rightarrow> option_contract list \<Rightarrow> 's \<Rightarrow> (string + contract list) \<times> 's" where
  "from_contracts strategy client [] s = (Inr [], s)"
| "from_contracts strategy client (oc # ocs) s =
     (case from_contract strategy oc client s of
        (Inl e, s') \<Rightarrow> (Inl e, s')
      | (Inr c, s') \<Rightarrow>
          (case from_contracts strategy client ocs s' of
             (Inl e, s'') \<Rightarrow> (Inl e, s'')
           | (Inr cs, s'') \<Rightarrow> (Inr (c # cs), s'')))"

definition sell_calls ::
  "'s strategy \<Rightarrow> 's client \<Rightarrow> string \<Rightarrow> real \<Rightarrow> int \<Rightarrow> bool \<Rightarrow> 's world \<Rightarrow>
     (error + unit) \<times> 's world" where
  "sell_calls strategy client ticker purchase_price stock_qty strat_logger w =
     (if stock_qty < 100
      then (Inl (ValueError (Not_enough_shares ticker stock_qty)),
            say ERROR (Not_enough_shares_msg ticker stock_qty) w)
      else
     (let w0 = say INFO (Searching_for_calls ticker) w
      in case get_options_contracts client [ticker] ''call'' (broker w0) of
           (Inl e, s1) \<Rightarrow> (Inl (Raised e), w0\<lparr>broker := s1\<rparr>)
         | (Inr option_contracts, s1) \<Rightarrow>
     (case from_contracts strategy client option_contracts s1 of
        (Inl e, s2) \<Rightarrow> (Inl (Raised e), w0\<lparr>broker := s2\<rparr>)
      | (Inr contracts, s2) \<Rightarrow>
     (let call_options = filter_options strategy contracts (Some purchase_price);
          w1 = (if strat_logger then record_strat (Call_options call_options) (w0\<lparr>broker := s2\<rparr>)
                else w0\<lparr>broker := s2\<rparr>)
      in if call_options \<noteq> []
         then
           (case argmax (score_options strategy call_options) of
              Inl e \<Rightarrow> (Inl e, w1)
            | Inr i \<Rightarrow>
           (case getitem call_options i of
              Inl e \<Rightarrow> (Inl e, w1)
            | Inr contract \<Rightarrow>
           (let w2 = say INFO (Selling_call (c_symbol contract)) w1
            in case market_sell client (c_symbol contract) (broker w2) of
                 (Inl e, s3) \<Rightarrow> (Inl (Raised e), w2\<lparr>broker := s3\<rparr>)
               | (Inr u, s3) \<Rightarrow>
                   (Inr (),
                    if strat_logger then record_strat (Sold_calls contract) (w2\<lparr>broker := s3\<rparr>)
                    else w2\<lparr>broker := s3\<rparr>))))
         else (Inr (), say INFO (No_viable_calls ticker) w1)))))"

section \<open>Reference definitions\<close>

text \<open>
  The brokerage's answers to a sequence of orders submitted one after the other, each
  on the state the previous one left.  \<open>close_loop\<close> is compared with it.
\<close>

fun submit_all ::
  "'s client \<Rightarrow> market_order_request list \<Rightarrow> 's \<Rightarrow> (string + string) list \<times> 's" where
  "submit_all client [] s = ([], s)"
| "submit_all client (x # xs) s =
     (case submit_order client x s of
        (r, s') \<Rightarrow> (case submit_all client xs s' of (rs, s'') \<Rightarrow> (r # rs, s'')))"

definition decision_order :: "decision \<Rightarrow> market_order_request" where
  "decision_order d =
     (case d of (details, reason, pnl) \<Rightarrow>
        close_order (symbol (d_position details)) (d_qty details))"

text \<open>The records of the accepted orders, and the messages of the refused ones.\<close>

fun accepted :: "(decision \<times> (string + string)) list \<Rightarrow> closed_position list" where
  "accepted [] = []"
| "accepted ((d, Inl e) # xs) = accepted xs"
| "accepted ((d, Inr order_id) # xs) = closed_record d order_id # accepted xs"

fun refused :: "(decision \<times> (string + string)) list \<Rightarrow> (string \<times> string) list" where
  "refused [] = []"
| "refused ((d, Inl e) # xs) = (symbol (d_position (fst d)), e) # refused xs"
| "refused ((d, Inr order_id) # xs) = refused xs"

text \<open>The failures to close that a log holds, in order.\<close>

fun failures_logged :: "(level \<times> log_msg) list \<Rightarrow> (string \<times> string) list" where
  "failures_logged [] = []"
| "failures_logged ((ERROR, Failed_to_close s e) # xs) = (s, e) # failures_logged xs"
| "failures_logged (x # xs) = failures_logged xs"


section \<open>An example gateway\<close>

text \<open>
  A client whose state is the list of the calls it has received.  It answers with fixed
  data; \<open>submit_order\<close> refuses the symbols in \<open>rejects\<close>.
\<close>

datatype call =
    Call_get_positions
  | Call_get_stock_latest_trade
  | Call_get_option_snapshot "string list"
  | Call_get_options_contracts "string list" string
  | Call_market_sell string
  | Call_submit_order market_order_request

definition recording_client ::
  "position list \<Rightarrow> string + (string \<rightharpoonup> trade) \<Rightarrow> string + (string \<rightharpoonup> snapshot) \<Rightarrow>
     option_contract list \<Rightarrow> string list \<Rightarrow> call list client" where
  "recording_client ps stock_result snapshot_result ocs rejects =
     \<lparr>get_positions = (\<lambda>s. (Inr ps, s @ [Call_get_positions])),
      get_stock_latest_trade = (\<lambda>us s. (stock_result, s @ [Call_get_stock_latest_trade])),
      get_option_snapshot = (\<lambda>syms s. (snapshot_result, s @ [Call_get_option_snapshot syms])),
      get_options_contracts = (\<lambda>syms k s. (Inr ocs, s @ [Call_get_options_contracts syms k])),
      market_sell = (\<lambda>x s. (Inr (), s @ [Call_market_sell x])),
      submit_order =
        (\<lambda>x s. (if o_symbol x \<in> set rejects then Inl ''rejected'' else Inr (''id-'' @ o_symbol x),
                 s @ [Call_submit_order x]))\<rparr>"

definition example_strategy :: "string list \<Rightarrow> (string \<Rightarrow> real) \<Rightarrow> call list strategy" where
  "example_strategy affordable strike_of =
     \<lparr>filter_underlying = (\<lambda>client syms bp s. (Inr affordable, s)),
      filter_options = (\<lambda>cs ref. cs),
      score_options = map strike,
      select_options = (\<lambda>cs scores. cs),
      from_contract_snapshot = (\<lambda>oc sn. \<lparr>c_symbol = oc_symbol oc, strike = strike_of (oc_symbol oc)\<rparr>),
      from_contract = (\<lambda>oc client s. (Inr \<lparr>c_symbol = oc_symbol oc, strike = strike_of (oc_symbol oc)\<rparr>, s))\<rparr>"

definition world0 :: "call list world" where
  "world0 = \<lparr>broker = [], logger = [], strat_log = []\<rparr>"

definition aapl_put :: position where
  "aapl_put = \<lparr>symbol = ''AAPL250920P00150000'', qty = - 1, avg_entry_price = 2,
               asset_class = US_OPTION\<rparr>"

definition msft_put :: position where
  "msft_put = \<lparr>symbol = ''MSFT250920P00300000'', qty = - 2, avg_entry_price = 0,
               asset_class = US_OPTION\<rparr>"

definition example_parse :: parser where
  "example_parse s =
     (if s = ''AAPL250920P00150000'' then Inr (''AAPL'', ''P'', 150)
      else if s = ''MSFT250920P00300000'' then Inr (''MSFT'', ''P'', 300)
      else Inl ''malformed'')"

definition stocks :: "string \<rightharpoonup> trade" where
  "stocks = [''AAPL'' \<mapsto> \<lparr>price = 155\<rparr>, ''MSFT'' \<mapsto> \<lparr>price = 310\<rparr>]"

definition quoted :: "real \<Rightarrow> real \<Rightarrow> snapshot" where
  "quoted b a = \<lparr>latest_quote = Some \<lparr>bid_price = Some b, ask_price = Some a\<rparr>,
                 latest_trade = None\<rparr>"

section \<open>Basic facts\<close>

lemma pnl_percentage_value:
  "pnl_percentage p u = Inr (if p > 0 then u / p else 0)"
  by (simp add: pnl_percentage_def truediv_def)

lemma closure_cases:
  assumes "0 < t"
  shows "closure t p \<noteq> None \<longleftrightarrow> \<bar>p\<bar> \<ge> t"
    and "closure t p = Some profit_target \<longleftrightarrow> p \<ge> t"
    and "closure t p = Some loss_limit \<longleftrightarrow> p \<le> - t"
    and "closure t p = None \<longleftrightarrow> \<bar>p\<bar> < t"
  using assms by (auto simp: closure_def)

lemma argmax_no_share_error: "argmax xs \<noteq> Inl (ValueError (Not_enough_shares t q))"
  by (simp add: argmax_def split: list.splits)

lemma getitem_no_share_error: "getitem xs i \<noteq> Inl (ValueError (Not_enough_shares t q))"
  by (simp add: getitem_def)

section \<open>Covered calls: the round-lot precondition\<close>

text \<open>
  C9.  With fewer than 100 shares \<open>sell_calls\<close> logs the message and raises the
  \<open>ValueError\<close> that carries it; the result is the same for every client and every
  strategy and leaves the brokerage state as it was, so no gateway call has been made.
  With 100 shares or more that error is not raised.
\<close>

theorem sell_calls_insufficient_shares:
  "(stock_qty < 100 \<longrightarrow>
      sell_calls strategy client ticker purchase_price stock_qty strat_logger w =
        (Inl (ValueError (Not_enough_shares ticker stock_qty)),
         say ERROR (Not_enough_shares_msg ticker stock_qty) w)) \<and>
   (100 \<le> stock_qty \<longrightarrow>
      (\<forall>t q. fst (sell_calls strategy client ticker purchase_price stock_qty strat_logger w) \<noteq>
         Inl (ValueError (Not_enough_shares t q))))"
proof (intro conjI impI allI)
  assume "stock_qty < 100"
  then show "sell_calls strategy client ticker purchase_price stock_qty strat_logger w =
      (Inl (ValueError (Not_enough_shares ticker stock_qty)),
       say ERROR (Not_enough_shares_msg ticker stock_qty) w)"
    by (simp add: sell_calls_def)
next
  fix t q
  assume "100 \<le> stock_qty"
  then show "fst (sell_calls strategy client ticker purchase_price stock_qty strat_logger w) \<noteq>
      Inl (ValueError (Not_enough_shares t q))"
    by (auto simp: sell_calls_def Let_def argmax_no_share_error getitem_no_share_error
        split: prod.splits sum.splits)
qed

theorem sell_calls_insufficient_shares_witness:
  "(50::int) < 100 \<and>
   sell_calls (example_strategy [] (\<lambda>x. 10)) (recording_client [] (Inr stocks) (Inr Map.empty) [] [])
       ''AAPL'' 140 50 False world0 =
     (Inl (ValueError (Not_enough_shares ''AAPL'' 50)),
      \<lparr>broker = [], logger = [(ERROR, Not_enough_shares_msg ''AAPL'' 50)], strat_log = []\<rparr>) \<and>
   (100::int) \<le> 100 \<and>
   fst (sell_calls (example_strategy [] (\<lambda>x. 10))
          (recording_client [] (Inr stocks) (Inr Map.empty) [] []) ''AAPL'' 140 100 False world0) \<noteq>
     Inl (ValueError (Not_enough_shares ''AAPL'' 100))"
  using sell_calls_insufficient_shares
          [of 50 "example_strategy [] (\<lambda>x. 10)"
              "recording_client [] (Inr stocks) (Inr Map.empty) [] []" "''AAPL''" 140 False world0]
        sell_calls_insufficient_shares
          [of 100 "example_strategy [] (\<lambda>x. 10)"
              "recording_client [] (Inr stocks) (Inr Map.empty) [] []" "''AAPL''" 140 False world0]
  by (simp add: say_def world0_def)

section \<open>Selling puts without a strategy logger\<close>

lemma sell_puts_no_logger:
  assumes "allowed_symbols \<noteq> []" and "0 < buying_power" and "\<not> strat_logger"
    and "filter_underlying strategy client allowed_symbols buying_power (broker w) = (Inr fs, s1)"
  shows "fst (sell_puts strategy client allowed_symbols buying_power strat_logger w) =
           Inl (AttributeError ''set_filtered_symbols'')"
  using assms by (simp add: sell_puts_def say_def)

text \<open>
  C4.  \<open>sell_puts\<close> with one allowed symbol, a buying power of 1000, no strategy logger
  and an affordability filter that leaves nothing: line 20 calls
  \<open>set_filtered_symbols\<close> on \<open>None\<close>, and the function raises instead of stopping.  With a
  logger the same call stops without an error.
\<close>

theorem sell_puts_without_logger_raises:
  "sell_puts (example_strategy [] (\<lambda>x. 10)) (recording_client [] (Inr stocks) (Inr Map.empty) [] [])
       [''AAPL''] 1000 False world0 =
     (Inl (AttributeError ''set_filtered_symbols''),
      \<lparr>broker = [], logger = [(INFO, Searching_for_puts)], strat_log = []\<rparr>) \<and>
   sell_puts (example_strategy [] (\<lambda>x. 10)) (recording_client [] (Inr stocks) (Inr Map.empty) [] [])
       [''AAPL''] 1000 True world0 =
     (Inr (),
      \<lparr>broker = [], logger = [(INFO, Searching_for_puts), (INFO, No_symbols_with_buying_power)],
       strat_log = [Filtered_symbols []]\<rparr>)"
  by (simp add: sell_puts_def world0_def say_def record_strat_def example_strategy_def)

section \<open>The loops of \<open>manage_open_puts\<close>\<close>

lemma evaluate_position_cases:
  "fst (evaluate_position t sp os (k, d) w) =
     (case sp (d_underlying d) of None \<Rightarrow> Inr None
      | Some st \<Rightarrow>
     (case os k of None \<Rightarrow> Inr None
      | Some snap \<Rightarrow>
     (case current_option_price snap of None \<Rightarrow> Inr None
      | Some cur \<Rightarrow>
          Inr (map_option (\<lambda>r. (d, r, d_avg_entry_price d - cur))
                (closure t (if d_avg_entry_price d > 0
                            then (d_avg_entry_price d - cur) / d_avg_entry_price d else 0))))))"
  by (simp add: evaluate_position_def Let_def pnl_percentage_value
      split: option.splits reason.splits)

lemma evaluate_position_world:
  "fst (evaluate_position t sp os it w) = fst (evaluate_position t sp os it v)"
  by (cases it) (simp only: evaluate_position_cases)

lemma evaluate_position_no_error: "\<exists>r. fst (evaluate_position t sp os it w) = Inr r"
  by (cases it) (simp add: evaluate_position_cases split: option.splits)

lemma evaluate_position_broker: "broker (snd (evaluate_position t sp os it w)) = broker w"
  by (simp add: evaluate_position_def Let_def pnl_percentage_value say_def
      split: option.splits reason.splits)

lemma evaluate_position_strat: "strat_log (snd (evaluate_position t sp os it w)) = strat_log w"
  by (simp add: evaluate_position_def Let_def pnl_percentage_value say_def
      split: option.splits reason.splits)

lemma evaluate_loop_result:
  "\<exists>ds w'. evaluate_loop t sp os items acc w = (Inr (acc @ ds), w') \<and> broker w' = broker w \<and>
      strat_log w' = strat_log w \<and>
      set ds = {d. \<exists>it\<in>set items. fst (evaluate_position t sp os it v) = Inr (Some d)}"
proof (induction items arbitrary: acc w)
  case Nil
  then show ?case by simp
next
  case (Cons it items)
  obtain r w1 where ev: "evaluate_position t sp os it w = (Inr r, w1)"
    using evaluate_position_no_error [of t sp os it w] by (cases "evaluate_position t sp os it w") auto
  have b1: "broker w1 = broker w" "strat_log w1 = strat_log w"
    using evaluate_position_broker [of t sp os it w] evaluate_position_strat [of t sp os it w] ev
    by simp_all
  have rv: "fst (evaluate_position t sp os it v) = Inr r"
    using evaluate_position_world [of t sp os it v w] ev by simp
  show ?case
  proof (cases r)
    case None
    obtain ds w' where "evaluate_loop t sp os items acc w1 = (Inr (acc @ ds), w')"
      "broker w' = broker w1" "strat_log w' = strat_log w1"
      "set ds = {d. \<exists>it\<in>set items. fst (evaluate_position t sp os it v) = Inr (Some d)}"
      using Cons.IH [of acc w1] by blast
    then show ?thesis using ev None b1 rv by auto
  next
    case (Some d)
    obtain ds w' where "evaluate_loop t sp os items (acc @ [d]) w1 = (Inr ((acc @ [d]) @ ds), w')"
      "broker w' = broker w1" "strat_log w' = strat_log w1"
      "set ds = {d. \<exists>it\<in>set items. fst (evaluate_position t sp os it v) = Inr (Some d)}"
      using Cons.IH [of "acc @ [d]" w1] by blast
    then have "evaluate_loop t sp os (it # items) acc w = (Inr (acc @ (d # ds)), w') \<and>
       broker w' = broker w \<and> strat_log w' = strat_log w \<and>
       set (d # ds) = {d. \<exists>it\<in>set (it # items). fst (evaluate_position t sp os it v) = Inr (Some d)}"
      using ev Some b1 rv by auto
    then show ?thesis by blast
  qed
qed

lemma failures_logged_append:
  "failures_logged (xs @ ys) = failures_logged xs @ failures_logged ys"
  by (induction xs rule: failures_logged.induct) simp_all


lemma close_loop_refines:
  "\<exists>w'. close_loop c ds acc w =
           (acc @ accepted (zip ds (fst (submit_all c (map decision_order ds) (broker w)))), w') \<and>
         broker w' = snd (submit_all c (map decision_order ds) (broker w)) \<and>
         strat_log w' = strat_log w \<and>
         failures_logged (logger w') =
           failures_logged (logger w) @
           refused (zip ds (fst (submit_all c (map decision_order ds) (broker w))))"
proof (induction ds arbitrary: acc w)
  case Nil
  then show ?case by simp
next
  case (Cons d ds)
  obtain details reason pnl where d: "d = (details, reason, pnl)" by (cases d) auto
  define w1 where "w1 = say INFO (Buying_back (symbol (d_position details)) reason pnl) w"
  obtain r s' where sub: "submit_order c (decision_order d) (broker w) = (r, s')"
    by (cases "submit_order c (decision_order d) (broker w)") auto
  have bw1: "broker w1 = broker w" "strat_log w1 = strat_log w"
    "failures_logged (logger w1) = failures_logged (logger w)"
    by (simp_all add: w1_def say_def failures_logged_append)
  show ?case
  proof (cases r)
    case (Inl e)
    define w2 where "w2 = say ERROR (Failed_to_close (symbol (d_position details)) e) (w1\<lparr>broker := s'\<rparr>)"
    have bw2: "broker w2 = s'" "strat_log w2 = strat_log w"
      "failures_logged (logger w2) = failures_logged (logger w) @ [(symbol (d_position details), e)]"
      using bw1 by (simp_all add: w2_def say_def failures_logged_append)
    have step: "close_loop c (d # ds) acc w = close_loop c ds acc w2"
      using sub Inl bw1 by (simp add: d decision_order_def w1_def w2_def Let_def)
    from Cons.IH [of acc w2] obtain w' where
      "close_loop c ds acc w2 =
           (acc @ accepted (zip ds (fst (submit_all c (map decision_order ds) (broker w2)))), w')"
      "broker w' = snd (submit_all c (map decision_order ds) (broker w2))"
      "strat_log w' = strat_log w2"
      "failures_logged (logger w') = failures_logged (logger w2) @
           refused (zip ds (fst (submit_all c (map decision_order ds) (broker w2))))"
      by blast
    then show ?thesis using step sub Inl bw2 by (auto simp: d split: prod.splits)
  next
    case (Inr oid)
    define w2 where "w2 = say INFO (Submitted_close (symbol (d_position details)) oid) (w1\<lparr>broker := s'\<rparr>)"
    have bw2: "broker w2 = s'" "strat_log w2 = strat_log w"
      "failures_logged (logger w2) = failures_logged (logger w)"
      using bw1 by (simp_all add: w2_def say_def failures_logged_append)
    have step: "close_loop c (d # ds) acc w = close_loop c ds (acc @ [closed_record d oid]) w2"
      using sub Inr bw1 by (simp add: d decision_order_def w1_def w2_def Let_def)
    from Cons.IH [of "acc @ [closed_record d oid]" w2] obtain w' where
      "close_loop c ds (acc @ [closed_record d oid]) w2 =
           ((acc @ [closed_record d oid]) @ accepted (zip ds (fst (submit_all c (map decision_order ds) (broker w2)))), w')"
      "broker w' = snd (submit_all c (map decision_order ds) (broker w2))"
      "strat_log w' = strat_log w2"
      "failures_logged (logger w') = failures_logged (logger w2) @
           refused (zip ds (fst (submit_all c (map decision_order ds) (broker w2))))"
      by blast
    then show ?thesis using step sub Inr bw2 by (auto simp: d split: prod.splits)
  qed
qed

lemma parse_loop_world:
  "parse_loop parse ps us pd w = (us', pd', w') \<Longrightarrow>
     broker w' = broker w \<and> strat_log w' = strat_log w"
proof (induction ps arbitrary: us pd w)
  case Nil
  then show ?case by simp
next
  case (Cons p ps)
  then show ?case
    by (auto simp: say_def split: sum.splits prod.splits if_splits)
qed

text \<open>The cycle, once the positions are fetched and parsed.\<close>

lemma manage_open_puts_unfold:
  assumes gp: "get_positions client (broker w) = (Inr positions, s0)"
    and pl: "parse_loop parse (filter short_option positions) [] []
               (say INFO (Managing (length (filter short_option positions))) (w\<lparr>broker := s0\<rparr>)) =
             (underlyings, put_details, w1)"
  shows "manage_open_puts client parse t sl w =
     (if filter short_option positions = [] then (Inr None, say INFO No_open_puts (w\<lparr>broker := s0\<rparr>))
      else if underlyings = [] then (Inr None, say INFO No_valid_puts w1)
      else
     (case get_stock_latest_trade client (set underlyings) s0 of
        (Inl e, s1) \<Rightarrow> (Inr None, say ERROR (Failed_stock_prices e) (w1\<lparr>broker := s1\<rparr>))
      | (Inr stock_prices, s1) \<Rightarrow>
     (case get_option_snapshot client (map fst put_details) s1 of
        (Inl e, s2) \<Rightarrow> (Inr None, say ERROR (Failed_option_snapshots e) (w1\<lparr>broker := s2\<rparr>))
      | (Inr option_snapshots, s2) \<Rightarrow>
     (case evaluate_loop t stock_prices option_snapshots put_details [] (w1\<lparr>broker := s2\<rparr>) of
        (Inl e, w2) \<Rightarrow> (Inl e, w2)
      | (Inr positions_to_close, w2) \<Rightarrow>
          (Inr (Some (fst (close_loop client positions_to_close [] w2))),
           report sl (length (filter short_option positions))
             (fst (close_loop client positions_to_close [] w2))
             (snd (close_loop client positions_to_close [] w2)))))))"
proof -
  have b: "broker w1 = s0"
    using parse_loop_world [OF pl] by (simp add: say_def)
  show ?thesis
    using gp pl b
    by (simp add: manage_open_puts_def Let_def case_prod_beta split: sum.splits)
qed


lemma accepted_origin:
  "x \<in> set (accepted (zip ds rs)) \<Longrightarrow> \<exists>d\<in>set ds. \<exists>oid. x = closed_record d oid"
proof (induction ds arbitrary: rs)
  case Nil
  then show ?case by simp
next
  case (Cons d ds)
  then obtain r rs' where rs: "rs = r # rs'" by (cases rs) auto
  show ?case using Cons rs by (cases r) auto
qed

section \<open>Failed batch fetches\<close>

text \<open>
  C7.  Once the positions are fetched and at least one put is parsed, a failure of the
  stock-price fetch, or of the snapshot fetch after it, ends the cycle: the error is
  logged, the function returns \<open>None\<close>, and the brokerage state is the one the failed
  fetch left.  No order is submitted: the outcome is the same whatever \<open>submit_order\<close>
  would do.
\<close>

theorem fetch_failure_aborts_cycle:
  assumes "get_positions client (broker w) = (Inr positions, s0)"
    and "parse_loop parse (filter short_option positions) [] []
           (say INFO (Managing (length (filter short_option positions))) (w\<lparr>broker := s0\<rparr>)) =
         (underlyings, put_details, w1)"
    and "underlyings \<noteq> []"
    and "get_stock_latest_trade client (set underlyings) s0 = (stock_result, s1)"
    and "get_option_snapshot client (map fst put_details) s1 = (snapshot_result, s2)"
  shows "(\<forall>e. stock_result = Inl e \<longrightarrow>
            manage_open_puts client parse target_pct strat_logger w =
              (Inr None, say ERROR (Failed_stock_prices e) (w1\<lparr>broker := s1\<rparr>))) \<and>
         (\<forall>e. \<not> isl stock_result \<and> snapshot_result = Inl e \<longrightarrow>
            manage_open_puts client parse target_pct strat_logger w =
              (Inr None, say ERROR (Failed_option_snapshots e) (w1\<lparr>broker := s2\<rparr>))) \<and>
         (isl stock_result \<or> isl snapshot_result \<longrightarrow>
            (\<forall>f. manage_open_puts (client\<lparr>submit_order := f\<rparr>) parse target_pct strat_logger w =
                  manage_open_puts client parse target_pct strat_logger w))"
proof -
  have ne: "filter short_option positions \<noteq> []"
    using assms(2,3) by auto
  have u: "manage_open_puts client parse target_pct strat_logger w =
     (case stock_result of
        Inl e \<Rightarrow> (Inr None, say ERROR (Failed_stock_prices e) (w1\<lparr>broker := s1\<rparr>))
      | Inr stock_prices \<Rightarrow>
     (case snapshot_result of
        Inl e \<Rightarrow> (Inr None, say ERROR (Failed_option_snapshots e) (w1\<lparr>broker := s2\<rparr>))
      | Inr option_snapshots \<Rightarrow>
     (case evaluate_loop target_pct stock_prices option_snapshots put_details [] (w1\<lparr>broker := s2\<rparr>) of
        (Inl e, w2) \<Rightarrow> (Inl e, w2)
      | (Inr positions_to_close, w2) \<Rightarrow>
          (Inr (Some (fst (close_loop client positions_to_close [] w2))),
           report strat_logger (length (filter short_option positions))
             (fst (close_loop client positions_to_close [] w2))
             (snd (close_loop client positions_to_close [] w2))))))"
    using manage_open_puts_unfold [OF assms(1,2), of target_pct strat_logger] ne assms(3,4,5)
    by (simp split: sum.splits)
  have a1: "get_positions (client\<lparr>submit_order := f\<rparr>) (broker w) = (Inr positions, s0)" for f
    using assms(1) by simp
  have u': "manage_open_puts (client\<lparr>submit_order := f\<rparr>) parse target_pct strat_logger w =
     (case stock_result of
        Inl e \<Rightarrow> (Inr None, say ERROR (Failed_stock_prices e) (w1\<lparr>broker := s1\<rparr>))
      | Inr stock_prices \<Rightarrow>
     (case snapshot_result of
        Inl e \<Rightarrow> (Inr None, say ERROR (Failed_option_snapshots e) (w1\<lparr>broker := s2\<rparr>))
      | Inr option_snapshots \<Rightarrow>
     (case evaluate_loop target_pct stock_prices option_snapshots put_details [] (w1\<lparr>broker := s2\<rparr>) of
        (Inl e, w2) \<Rightarrow> (Inl e, w2)
      | (Inr positions_to_close, w2) \<Rightarrow>
          (Inr (Some (fst (close_loop (client\<lparr>submit_order := f\<rparr>) positions_to_close [] w2))),
           report strat_logger (length (filter short_option positions))
             (fst (close_loop (client\<lparr>submit_order := f\<rparr>) positions_to_close [] w2))
             (snd (close_loop (client\<lparr>submit_order := f\<rparr>) positions_to_close [] w2))))))" for f
    using manage_open_puts_unfold [OF a1 assms(2), of f target_pct strat_logger] ne assms(3,4,5)
    by (simp split: sum.splits)
  show ?thesis
    unfolding u u' by (cases stock_result; cases snapshot_result) simp_all
qed

theorem fetch_failure_aborts_cycle_witness:
  "manage_open_puts (recording_client [aapl_put] (Inl ''timeout'') (Inr Map.empty) [] [])
       example_parse (9 / 10) False world0 =
     (Inr None,
      \<lparr>broker = [Call_get_positions, Call_get_stock_latest_trade],
       logger = [(INFO, Managing 1), (ERROR, Failed_stock_prices ''timeout'')],
       strat_log = []\<rparr>) \<and>
   manage_open_puts (recording_client [aapl_put] (Inr stocks) (Inl ''no data'') [] [])
       example_parse (9 / 10) False world0 =
     (Inr None,
      \<lparr>broker = [Call_get_positions, Call_get_stock_latest_trade,
                 Call_get_option_snapshot [''AAPL250920P00150000'']],
       logger = [(INFO, Managing 1), (ERROR, Failed_option_snapshots ''no data'')],
       strat_log = []\<rparr>)"
proof -
  let ?w1 = "\<lparr>broker = [Call_get_positions], logger = [(INFO, Managing 1)], strat_log = []\<rparr>"
  let ?pd = "[(''AAPL250920P00150000'', make_detail aapl_put ''AAPL'' 150)]"
  have p: "parse_loop example_parse (filter short_option [aapl_put]) [] []
             (say INFO (Managing (length (filter short_option [aapl_put])))
                (world0\<lparr>broker := [Call_get_positions]\<rparr>)) =
           ([''AAPL''], ?pd, ?w1)"
    by (simp add: short_option_def aapl_put_def example_parse_def say_def world0_def)
  have n: "[''AAPL''] \<noteq> []" by simp
  let ?c1 = "recording_client [aapl_put] (Inl ''timeout'') (Inr Map.empty) [] []"
  let ?c2 = "recording_client [aapl_put] (Inr stocks) (Inl ''no data'') [] []"
  have g1: "get_positions ?c1 (broker world0) = (Inr [aapl_put], [Call_get_positions])"
    by (simp add: recording_client_def world0_def)
  have s1: "get_stock_latest_trade ?c1 (set [''AAPL'']) [Call_get_positions] =
              (Inl ''timeout'', [Call_get_positions, Call_get_stock_latest_trade])"
    by (simp add: recording_client_def)
  have o1: "get_option_snapshot ?c1 (map fst ?pd) [Call_get_positions, Call_get_stock_latest_trade] =
              (Inr Map.empty, [Call_get_positions, Call_get_stock_latest_trade,
                 Call_get_option_snapshot [''AAPL250920P00150000'']])"
    by (simp add: recording_client_def)
  have g2: "get_positions ?c2 (broker world0) = (Inr [aapl_put], [Call_get_positions])"
    by (simp add: recording_client_def world0_def)
  have s2: "get_stock_latest_trade ?c2 (set [''AAPL'']) [Call_get_positions] =
              (Inr stocks, [Call_get_positions, Call_get_stock_latest_trade])"
    by (simp add: recording_client_def)
  have o2: "get_option_snapshot ?c2 (map fst ?pd) [Call_get_positions, Call_get_stock_latest_trade] =
              (Inl ''no data'', [Call_get_positions, Call_get_stock_latest_trade,
                 Call_get_option_snapshot [''AAPL250920P00150000'']])"
    by (simp add: recording_client_def)
  show ?thesis
    using fetch_failure_aborts_cycle [OF g1 p n s1 o1, of "9 / 10" False]
          fetch_failure_aborts_cycle [OF g2 p n s2 o2, of "9 / 10" False]
    by (simp add: say_def)
qed

section \<open>The three outcomes of a cycle\<close>



section \<open>Order submission\<close>



section \<open>Decisions\<close>

lemma decision_origin:
  assumes "0 < t" and "fst (evaluate_position t sp os (k, d) w) = Inr (Some x)"
  shows "fst x = d \<and> 0 < d_avg_entry_price d"
proof -
  have c0: "closure t 0 = None" using assms(1) by (simp add: closure_def)
  show ?thesis
    using assms(2) c0 unfolding evaluate_position_cases
    by (auto split: option.splits if_splits)
qed

lemma parse_loop_keys:
  assumes "parse_loop parse ps us pd w = (us', pd', w')"
    and "\<forall>(k, d)\<in>set pd. symbol (d_position d) = k \<and> 0 \<le> d_avg_entry_price d \<and> 0 < d_qty d"
    and "\<forall>p\<in>set ps. short_option p"
  shows "\<forall>(k, d)\<in>set pd'. symbol (d_position d) = k \<and> 0 \<le> d_avg_entry_price d \<and> 0 < d_qty d"
  using assms
proof (induction ps arbitrary: us pd w)
  case Nil
  then show ?case by simp
next
  case (Cons p ps)
  show ?case
  proof (cases "parse (symbol p)")
    case (Inl e)
    then show ?thesis using Cons.prems Cons.IH [of us pd "say WARNING (Could_not_parse (symbol p) e) w"]
      by simp
  next
    case (Inr y)
    obtain u ty s where y: "y = (u, ty, s)" by (cases y) auto
    show ?thesis
    proof (cases "ty = ''P''")
      case True
      have q: "qty p < 0" using Cons.prems(3) by (simp add: short_option_def)
      have inv: "\<forall>(k, d)\<in>set (AList.update (symbol p) (make_detail p u s) pd).
                   symbol (d_position d) = k \<and> 0 \<le> d_avg_entry_price d \<and> 0 < d_qty d"
      proof -
        have "set (AList.update (symbol p) (make_detail p u s) pd) \<subseteq>
                insert (symbol p, make_detail p u s) (set pd)"
          by (induction pd) auto
        moreover have "symbol (d_position (make_detail p u s)) = symbol p \<and>
           0 \<le> d_avg_entry_price (make_detail p u s) \<and> 0 < d_qty (make_detail p u s)"
          using q by (simp add: make_detail_def)
        ultimately show ?thesis using Cons.prems(2) by auto
      qed
      show ?thesis
        using Cons.prems Inr y True
          Cons.IH [of "us @ [u]" "AList.update (symbol p) (make_detail p u s) pd" w, OF _ inv]
        by simp
    next
      case False
      then show ?thesis using Cons.prems Inr y Cons.IH [of us pd w] by simp
    qed
  qed
qed

lemma manage_open_puts_closed_origin:
  assumes "manage_open_puts client parse t sl w = (Inr (Some closed_positions), w')"
    and "x \<in> set closed_positions"
  shows "\<exists>sp os k d r p oid. fst (evaluate_position t sp os (k, d) w) = Inr (Some (d, r, p)) \<and>
           x = closed_record (d, r, p) oid"
proof -
  obtain positions s0 where gp: "get_positions client (broker w) = (Inr positions, s0)"
    using assms(1)
    by (cases "get_positions client (broker w)")
       (auto simp: manage_open_puts_def split: sum.splits)
  obtain us pd w1 where
    pl: "parse_loop parse (filter short_option positions) [] []
           (say INFO (Managing (length (filter short_option positions))) (w\<lparr>broker := s0\<rparr>)) =
         (us, pd, w1)"
    by (metis prod_cases3)
  note u = manage_open_puts_unfold [OF gp pl, of t sl]
  obtain sp os s2 ptc w2 where
    ev: "evaluate_loop t sp os pd [] (w1\<lparr>broker := s2\<rparr>) = (Inr ptc, w2)" and
    cl: "closed_positions = fst (close_loop client ptc [] w2)"
    using assms(1) unfolding u
    by (auto split: if_splits sum.splits prod.splits)
  have "closed_positions = accepted (zip ptc (fst (submit_all client (map decision_order ptc) (broker w2))))"
    using close_loop_refines [of client ptc "[]" w2] cl by auto
  then obtain dd oid where dd: "dd \<in> set ptc" "x = closed_record dd oid"
    using accepted_origin assms(2) by blast
  obtain ds where "ptc = [] @ ds"
    "set ds = {d. \<exists>it\<in>set pd. fst (evaluate_position t sp os it w) = Inr (Some d)}"
    using evaluate_loop_result [of t sp os pd "[]" "w1\<lparr>broker := s2\<rparr>" w] ev by auto
  then obtain it where it: "it \<in> set pd" "fst (evaluate_position t sp os it w) = Inr (Some dd)"
    using dd(1) by auto
  obtain k d where kd: "it = (k, d)" by (cases it) auto
  obtain d' r p where dr: "dd = (d', r, p)" by (cases dd) auto
  have "d' = d"
    using it(2) unfolding kd dr evaluate_position_cases by (auto split: option.splits)
  then show ?thesis using it(2) dd(2) kd dr by blast
qed

lemma manage_open_puts_no_division_error:
  "fst (manage_open_puts client parse t sl (w :: 's world)) \<noteq> Inl ZeroDivisionError"
proof (cases "get_positions client (broker w)")
  case (Pair res s0)
  show ?thesis
  proof (cases res)
    case (Inl e)
    then show ?thesis using Pair by (simp add: manage_open_puts_def)
  next
    case (Inr positions)
    obtain us pd w1 where
      pl: "parse_loop parse (filter short_option positions) [] []
             (say INFO (Managing (length (filter short_option positions))) (w\<lparr>broker := s0\<rparr>)) =
           (us, pd, w1)"
      by (metis prod_cases3)
    have gp: "get_positions client (broker w) = (Inr positions, s0)" using Pair Inr by simp
    have ok: "evaluate_loop t sp os pd [] v \<noteq> (Inl e, w')"
      for sp os e and v w' :: "'s world"
      using evaluate_loop_result [of t sp os pd "[]" v v] by auto
    show ?thesis
      unfolding manage_open_puts_unfold [OF gp pl, of t sl]
      using ok by (auto split: sum.splits prod.splits)
  qed
qed

section \<open>Positions with no premium\<close>

text \<open>
  C6.  For a position whose premium collected is zero the P&L percentage is 0, computed
  without a division, and for a positive target the position is not selected for
  closure whatever the prices are.  Over the whole cycle no division by zero is raised,
  and every closed_positions position has a positive premium.
\<close>

theorem zero_premium_never_closed:
  assumes "0 < target_pct"
  shows "(d_avg_entry_price details = 0 \<longrightarrow>
            pnl_percentage (d_avg_entry_price details) (d_avg_entry_price details - cur) = Inr 0 \<and>
            fst (evaluate_position target_pct stock_prices option_snapshots (k, details) w) =
              Inr None \<and>
            (\<forall>ptc w'. evaluate_loop target_pct stock_prices option_snapshots items [] w =
                         (Inr ptc, w') \<longrightarrow>
               (\<forall>r p. (details, r, p) \<notin> set ptc))) \<and>
         (\<forall>closed_positions w'. manage_open_puts client parse target_pct strat_logger w0 =
                         (Inr (Some closed_positions), w') \<longrightarrow>
            (\<forall>x\<in>set closed_positions. 0 < r_premium_collected x)) \<and>
         fst (manage_open_puts client parse target_pct strat_logger w0) \<noteq> Inl ZeroDivisionError"
proof (intro conjI impI allI ballI)
  assume z: "d_avg_entry_price details = 0"
  show "pnl_percentage (d_avg_entry_price details) (d_avg_entry_price details - cur) = Inr 0"
    using z by (simp add: pnl_percentage_def)
  have c0: "closure target_pct 0 = None"
    using assms by (simp add: closure_def)
  show "fst (evaluate_position target_pct stock_prices option_snapshots (k, details) w) = Inr None"
    unfolding evaluate_position_cases using z c0 by (simp split: option.splits)
  fix ptc w' r p
  assume ev: "evaluate_loop target_pct stock_prices option_snapshots items [] w = (Inr ptc, w')"
  show "(details, r, p) \<notin> set ptc"
  proof
    assume m: "(details, r, p) \<in> set ptc"
    have "set ptc = {d. \<exists>it\<in>set items.
            fst (evaluate_position target_pct stock_prices option_snapshots it w) = Inr (Some d)}"
      using evaluate_loop_result [of target_pct stock_prices option_snapshots items "[]" w w] ev
      by auto
    then obtain it where
      "fst (evaluate_position target_pct stock_prices option_snapshots it w) =
         Inr (Some (details, r, p))"
      using m by auto
    then have "0 < d_avg_entry_price details"
      using decision_origin [OF assms, of stock_prices option_snapshots "fst it" "snd it" w
              "(details, r, p)"]
      by (cases it) (auto split: option.splits simp: evaluate_position_cases)
    then show False using z by simp
  qed
next
  fix closed_positions w' x
  assume m: "manage_open_puts client parse target_pct strat_logger w0 = (Inr (Some closed_positions), w')"
    and x: "x \<in> set closed_positions"
  obtain sp os k d r p oid where
    e: "fst (evaluate_position target_pct sp os (k, d) w0) = Inr (Some (d, r, p))" and
    xr: "x = closed_record (d, r, p) oid"
    using manage_open_puts_closed_origin [OF m x] by blast
  have "0 < d_avg_entry_price d"
    using decision_origin [OF assms e] by simp
  then show "0 < r_premium_collected x"
    by (simp add: xr closed_record_def)
next
  show "fst (manage_open_puts client parse target_pct strat_logger w0) \<noteq> Inl ZeroDivisionError"
    by (rule manage_open_puts_no_division_error)
qed

theorem zero_premium_never_closed_witness:
  "(0::real) < 9 / 10 \<and>
   d_avg_entry_price (make_detail msft_put ''MSFT'' 300) = 0 \<and>
   pnl_percentage (d_avg_entry_price (make_detail msft_put ''MSFT'' 300))
     (d_avg_entry_price (make_detail msft_put ''MSFT'' 300) - 6) = Inr 0 \<and>
   fst (evaluate_position (9 / 10) stocks [''MSFT250920P00300000'' \<mapsto> quoted 5 7]
          (''MSFT250920P00300000'', make_detail msft_put ''MSFT'' 300) world0) = Inr None \<and>
   fst (manage_open_puts
          (recording_client [msft_put] (Inr stocks)
             (Inr [''MSFT250920P00300000'' \<mapsto> quoted 5 7]) [] [])
          example_parse (9 / 10) False world0) \<noteq> Inl ZeroDivisionError"
proof -
  have t: "(0::real) < 9 / 10" by simp
  have z: "d_avg_entry_price (make_detail msft_put ''MSFT'' 300) = 0"
    by (simp add: make_detail_def msft_put_def)
  show ?thesis
    using zero_premium_never_closed
            [OF t, where details = "make_detail msft_put ''MSFT'' 300" and cur = 6
               and stock_prices = stocks
               and option_snapshots = "[''MSFT250920P00300000'' \<mapsto> quoted 5 7]"
               and k = "''MSFT250920P00300000''" and w = world0 and ?w0.0 = world0
               and client = "recording_client [msft_put] (Inr stocks)
                               (Inr [''MSFT250920P00300000'' \<mapsto> quoted 5 7]) [] []"
               and parse = example_parse and strat_logger = False]
          z
    by simp
qed

section \<open>The closure test\<close>

text \<open>
  C2.  Take an entry of \<open>put_details\<close> whose prices are all found, so that the loop
  evaluates it, and a positive target.  The position is selected for closure exactly
  when the magnitude of its P&L percentage reaches the target, the boundary included;
  it is selected with the reason \<open>profit_target\<close> exactly when the percentage is at
  least the target, and with \<open>loss_limit\<close> exactly when it is at most the negated
  target.  The entries of \<open>put_details\<close> are keyed by the symbol of their position, as
  the parsing loop builds them.
\<close>

theorem closure_decision:
  assumes "0 < target_pct"
    and "\<forall>(k, d)\<in>set put_details. symbol (d_position d) = k"
    and "(option_symbol, details) \<in> set put_details"
    and "stock_prices (d_underlying details) = Some st"
    and "option_snapshots option_symbol = Some snap"
    and "current_option_price snap = Some cur"
    and "pnl_percentage (d_avg_entry_price details) (d_avg_entry_price details - cur) =
           Inr pnl_pct"
    and "evaluate_loop target_pct stock_prices option_snapshots put_details [] w =
           (Inr positions_to_close, w')"
  shows "((\<exists>r p. (details, r, p) \<in> set positions_to_close) \<longleftrightarrow> target_pct \<le> \<bar>pnl_pct\<bar>) \<and>
         ((details, profit_target, d_avg_entry_price details - cur) \<in> set positions_to_close
            \<longleftrightarrow> target_pct \<le> pnl_pct) \<and>
         ((details, loss_limit, d_avg_entry_price details - cur) \<in> set positions_to_close
            \<longleftrightarrow> pnl_pct \<le> - target_pct) \<and>
         (\<forall>r p. (details, r, p) \<in> set positions_to_close \<longrightarrow>
            p = d_avg_entry_price details - cur \<and>
            (r = profit_target \<longleftrightarrow> target_pct \<le> pnl_pct) \<and>
            (r = loss_limit \<longleftrightarrow> pnl_pct \<le> - target_pct))"
proof -
  let ?prem = "d_avg_entry_price details"
  have pct: "pnl_pct = (if ?prem > 0 then (?prem - cur) / ?prem else 0)"
    using assms(7) by (simp add: pnl_percentage_value)
  have here: "fst (evaluate_position target_pct stock_prices option_snapshots
                     (option_symbol, details) w) =
              Inr (map_option (\<lambda>r. (details, r, ?prem - cur)) (closure target_pct pnl_pct))"
    unfolding evaluate_position_cases using assms(4,5,6) pct by simp
  have key: "symbol (d_position details) = option_symbol"
    using assms(2,3) by auto
  have sel: "set positions_to_close =
               {d. \<exists>it\<in>set put_details.
                  fst (evaluate_position target_pct stock_prices option_snapshots it w) =
                    Inr (Some d)}"
    using evaluate_loop_result [of target_pct stock_prices option_snapshots put_details "[]" w w]
      assms(8)
    by auto
  have mem: "(details, r, p) \<in> set positions_to_close \<longleftrightarrow>
               closure target_pct pnl_pct = Some r \<and> p = ?prem - cur" for r p
  proof
    assume "(details, r, p) \<in> set positions_to_close"
    then obtain k' d' where kd: "(k', d') \<in> set put_details"
      and e: "fst (evaluate_position target_pct stock_prices option_snapshots (k', d') w) =
                Inr (Some (details, r, p))"
      using sel by auto
    have "d' = details"
      using e unfolding evaluate_position_cases by (auto split: option.splits)
    moreover have "symbol (d_position d') = k'" using assms(2) kd by auto
    ultimately have "k' = option_symbol" "d' = details" using key by auto
    then show "closure target_pct pnl_pct = Some r \<and> p = ?prem - cur"
      using e here by auto
  next
    assume "closure target_pct pnl_pct = Some r \<and> p = ?prem - cur"
    then have "fst (evaluate_position target_pct stock_prices option_snapshots
                      (option_symbol, details) w) = Inr (Some (details, r, p))"
      using here by simp
    then show "(details, r, p) \<in> set positions_to_close"
      using sel assms(3) by blast
  qed
  note cc = closure_cases [OF assms(1), of pnl_pct]
  have a: "(\<exists>r p. (details, r, p) \<in> set positions_to_close) \<longleftrightarrow> target_pct \<le> \<bar>pnl_pct\<bar>"
    using mem cc(1) by auto
  have b: "(details, profit_target, ?prem - cur) \<in> set positions_to_close \<longleftrightarrow>
             target_pct \<le> pnl_pct"
    using mem cc(2) by simp
  have c: "(details, loss_limit, ?prem - cur) \<in> set positions_to_close \<longleftrightarrow>
             pnl_pct \<le> - target_pct"
    using mem cc(3) by simp
  have d: "\<forall>r p. (details, r, p) \<in> set positions_to_close \<longrightarrow>
            p = ?prem - cur \<and>
            (r = profit_target \<longleftrightarrow> target_pct \<le> pnl_pct) \<and>
            (r = loss_limit \<longleftrightarrow> pnl_pct \<le> - target_pct)"
    using mem cc(2,3) by auto
  show ?thesis using a b c d by blast
qed

theorem closure_decision_witness:
  "evaluate_loop (9 / 10) stocks [''AAPL250920P00150000'' \<mapsto> quoted (9 / 100) (11 / 100)]
     [(''AAPL250920P00150000'', make_detail aapl_put ''AAPL'' 150)] [] world0 =
     (Inr [(make_detail aapl_put ''AAPL'' 150, profit_target, 19 / 10)],
      \<lparr>broker = [],
       logger = [(INFO, Status ''AAPL250920P00150000'' 155 150 2 (1 / 10) (19 / 10) (19 / 20)),
                 (INFO, Profit_target_reached ''AAPL250920P00150000'' (19 / 20) (9 / 10) (19 / 10))],
       strat_log = []\<rparr>) \<and>
   pnl_percentage (d_avg_entry_price (make_detail aapl_put ''AAPL'' 150))
     (d_avg_entry_price (make_detail aapl_put ''AAPL'' 150) - 1 / 10) = Inr (19 / 20) \<and>
   ((make_detail aapl_put ''AAPL'' 150, profit_target,
     d_avg_entry_price (make_detail aapl_put ''AAPL'' 150) - 1 / 10) \<in>
      set [(make_detail aapl_put ''AAPL'' 150, profit_target, 19 / 10)]) =
     ((9 / 10 :: real) \<le> 19 / 20)"
proof -
  let ?d = "make_detail aapl_put ''AAPL'' 150"
  let ?pd = "[(''AAPL250920P00150000'', ?d)]"
  let ?snaps = "[''AAPL250920P00150000'' \<mapsto> quoted (9 / 100) (11 / 100)]"
  have h1: "(0::real) < 9 / 10" by simp
  have h2: "\<forall>(k, d)\<in>set ?pd. symbol (d_position d) = k"
    by (simp add: make_detail_def aapl_put_def)
  have h3: "(''AAPL250920P00150000'', ?d) \<in> set ?pd" by simp
  have h4: "stocks (d_underlying ?d) = Some \<lparr>price = 155\<rparr>"
    by (simp add: stocks_def make_detail_def)
  have h5: "?snaps ''AAPL250920P00150000'' = Some (quoted (9 / 100) (11 / 100))" by simp
  have h6: "current_option_price (quoted (9 / 100) (11 / 100)) = Some (1 / 10)"
    by (simp add: current_option_price_def quoted_def)
  have h7: "pnl_percentage (d_avg_entry_price ?d) (d_avg_entry_price ?d - 1 / 10) = Inr (19 / 20)"
    by (simp add: pnl_percentage_value make_detail_def aapl_put_def)
  have h8: "evaluate_loop (9 / 10) stocks ?snaps ?pd [] world0 =
     (Inr [(?d, profit_target, 19 / 10)],
      \<lparr>broker = [],
       logger = [(INFO, Status ''AAPL250920P00150000'' 155 150 2 (1 / 10) (19 / 10) (19 / 20)),
                 (INFO, Profit_target_reached ''AAPL250920P00150000'' (19 / 20) (9 / 10) (19 / 10))],
       strat_log = []\<rparr>)"
    by (simp add: evaluate_position_def Let_def pnl_percentage_value closure_def
        current_option_price_def quoted_def stocks_def make_detail_def aapl_put_def say_def
        world0_def)
  show ?thesis
    using closure_decision [OF h1 h2 h3 h4 h5 h6 h7 h8] h7 h8 by blast
qed

section \<open>A quote without prices\<close>

lemma or_zero_falsy: "\<not> truthy x \<Longrightarrow> or_zero x = 0"
  by (cases x) auto

lemma current_option_price_precedence:
  shows "latest_quote snap = Some q \<Longrightarrow> bid_price q = Some b \<Longrightarrow> ask_price q = Some a \<Longrightarrow>
           b \<noteq> 0 \<Longrightarrow> a \<noteq> 0 \<Longrightarrow> current_option_price snap = Some ((b + a) / 2)"
    and "latest_quote snap = Some q \<Longrightarrow> \<not> truthy (bid_price q) \<Longrightarrow> ask_price q = Some a \<Longrightarrow>
           a \<noteq> 0 \<Longrightarrow> current_option_price snap = Some a"
    and "latest_quote snap = None \<Longrightarrow> latest_trade snap = Some t \<Longrightarrow>
           current_option_price snap = Some (price t)"
    and "latest_quote snap = None \<Longrightarrow> latest_trade snap = None \<Longrightarrow>
           current_option_price snap = None"
    and "latest_quote snap = Some q \<Longrightarrow> \<not> truthy (ask_price q) \<Longrightarrow>
           current_option_price snap = Some 0"
  by (auto simp: current_option_price_def or_zero_falsy split: option.splits)

lemma unpriced_position_skipped:
  assumes "stock_prices (d_underlying details) = Some st"
    and "option_snapshots k = Some snap"
    and "latest_quote snap = None" and "latest_trade snap = None"
  shows "evaluate_position t stock_prices option_snapshots (k, details) w =
           (Inr None, say WARNING (No_price_data k) w)"
  using assms
  by (simp add: evaluate_position_def current_option_price_def)

text \<open>
  C1.  A snapshot that has a quote with no usable bid and no usable ask: the price is
  resolved to 0 by \<open>ask_price or 0\<close>, whether or not a latest trade exists, and the
  trade price 7 is not used.  A short put with a premium of 2 is then valued at a P&L of
  100 percent and bought back as \<open>profit_target\<close>, also when the snapshot has no trade
  at all.
\<close>

theorem empty_quote_resolves_to_zero:
  "current_option_price
     \<lparr>latest_quote = Some \<lparr>bid_price = Some 0, ask_price = Some 0\<rparr>,
      latest_trade = Some \<lparr>price = 7\<rparr>\<rparr> = Some 0 \<and>
   current_option_price
     \<lparr>latest_quote = Some \<lparr>bid_price = None, ask_price = None\<rparr>, latest_trade = None\<rparr> = Some 0 \<and>
   fst (manage_open_puts
          (recording_client [aapl_put] (Inr stocks)
             (Inr [''AAPL250920P00150000'' \<mapsto>
                     \<lparr>latest_quote = Some \<lparr>bid_price = Some 0, ask_price = Some 0\<rparr>,
                      latest_trade = Some \<lparr>price = 7\<rparr>\<rparr>]) [] [])
          example_parse (9 / 10) False world0) =
     Inr (Some [closed_record (make_detail aapl_put ''AAPL'' 150, profit_target, 2)
                  ''id-AAPL250920P00150000'']) \<and>
   fst (manage_open_puts
          (recording_client [aapl_put] (Inr stocks)
             (Inr [''AAPL250920P00150000'' \<mapsto>
                     \<lparr>latest_quote = Some \<lparr>bid_price = None, ask_price = None\<rparr>,
                      latest_trade = None\<rparr>]) [] [])
          example_parse (9 / 10) False world0) =
     Inr (Some [closed_record (make_detail aapl_put ''AAPL'' 150, profit_target, 2)
                  ''id-AAPL250920P00150000''])"
  by (simp add: manage_open_puts_def Let_def recording_client_def world0_def short_option_def
      aapl_put_def example_parse_def say_def stocks_def make_detail_def evaluate_position_def
      pnl_percentage_value closure_def current_option_price_def close_order_def
      closed_record_def)

section \<open>The budget walk of \<open>sell_puts\<close>\<close>






section \<open>The covered call that is sold\<close>

lemma argmax_from_first_max:
  assumes "length ys = n" and "bi < n" and "ys ! bi = b"
    and "\<forall>j<n. ys ! j \<le> b" and "\<forall>j<bi. ys ! j < b"
  shows "argmax_from xs n bi b < length (ys @ xs) \<and>
         (\<forall>j<length (ys @ xs). (ys @ xs) ! j \<le> (ys @ xs) ! argmax_from xs n bi b) \<and>
         (\<forall>j<argmax_from xs n bi b. (ys @ xs) ! j < (ys @ xs) ! argmax_from xs n bi b)"
  using assms
proof (induction xs arbitrary: ys n bi b)
  case Nil
  then show ?case by simp
next
  case (Cons x xs)
  have app: "(ys @ [x]) @ xs = ys @ x # xs" by simp
  show ?case
  proof (cases "x > b")
    case True
    have "argmax_from xs (Suc n) n x < length ((ys @ [x]) @ xs) \<and>
         (\<forall>j<length ((ys @ [x]) @ xs). ((ys @ [x]) @ xs) ! j \<le> ((ys @ [x]) @ xs) ! argmax_from xs (Suc n) n x) \<and>
         (\<forall>j<argmax_from xs (Suc n) n x. ((ys @ [x]) @ xs) ! j < ((ys @ [x]) @ xs) ! argmax_from xs (Suc n) n x)"
    proof (rule Cons.IH)
      show "length (ys @ [x]) = Suc n" using Cons.prems(1) by simp
      show "n < Suc n" by simp
      show "(ys @ [x]) ! n = x" using Cons.prems(1) by (simp add: nth_append)
      show "\<forall>j<Suc n. (ys @ [x]) ! j \<le> x"
        using Cons.prems(1,4) True by (auto simp: nth_append less_Suc_eq)
      show "\<forall>j<n. (ys @ [x]) ! j < x"
        using Cons.prems(1,4) True by (auto simp: nth_append intro: le_less_trans)
    qed
    then show ?thesis using True unfolding app by simp
  next
    case False
    have "argmax_from xs (Suc n) bi b < length ((ys @ [x]) @ xs) \<and>
         (\<forall>j<length ((ys @ [x]) @ xs). ((ys @ [x]) @ xs) ! j \<le> ((ys @ [x]) @ xs) ! argmax_from xs (Suc n) bi b) \<and>
         (\<forall>j<argmax_from xs (Suc n) bi b. ((ys @ [x]) @ xs) ! j < ((ys @ [x]) @ xs) ! argmax_from xs (Suc n) bi b)"
    proof (rule Cons.IH)
      show "length (ys @ [x]) = Suc n" using Cons.prems(1) by simp
      show "bi < Suc n" using Cons.prems(2) by simp
      show "(ys @ [x]) ! bi = b" using Cons.prems(1,2,3) by (simp add: nth_append)
      show "\<forall>j<Suc n. (ys @ [x]) ! j \<le> b"
        using Cons.prems(1,4) False by (auto simp: nth_append less_Suc_eq)
      show "\<forall>j<bi. (ys @ [x]) ! j < b"
        using Cons.prems(1,2,5) by (auto simp: nth_append)
    qed
    then show ?thesis using False unfolding app by simp
  qed
qed

lemma argmax_first_max:
  assumes "scores \<noteq> []"
  shows "\<exists>i. argmax scores = Inr i \<and> i < length scores \<and>
           (\<forall>j<length scores. scores ! j \<le> scores ! i) \<and> (\<forall>j<i. scores ! j < scores ! i)"
proof -
  obtain x xs where s: "scores = x # xs" using assms by (cases scores) auto
  have "argmax_from xs 1 0 x < length ([x] @ xs) \<and>
         (\<forall>j<length ([x] @ xs). ([x] @ xs) ! j \<le> ([x] @ xs) ! argmax_from xs 1 0 x) \<and>
         (\<forall>j<argmax_from xs 1 0 x. ([x] @ xs) ! j < ([x] @ xs) ! argmax_from xs 1 0 x)"
    by (rule argmax_from_first_max) simp_all
  then show ?thesis by (simp add: s argmax_def)
qed

text \<open>
  C10.  When \<open>sell_calls\<close> has qualifying contracts, one score for each, the contract it
  sells has a maximal score, and every contract before it in the filtered list has a
  strictly smaller score: among contracts that share the maximal score the first one in
  the list's order is sold.  The gateway receives \<open>market_sell\<close> for that contract and
  for nothing else.
\<close>

theorem sell_calls_first_maximum:
  assumes "100 \<le> stock_qty"
    and "get_options_contracts client [ticker] ''call'' (broker w) = (Inr option_contracts, s1)"
    and "from_contracts strategy client option_contracts s1 = (Inr contracts, s2)"
    and "call_options = filter_options strategy contracts (Some purchase_price)"
    and "call_options \<noteq> []"
    and "scores = score_options strategy call_options"
    and "length scores = length call_options"
  shows "\<exists>i<length call_options.
           (\<forall>j<length scores. scores ! j \<le> scores ! i) \<and>
           (\<forall>j<length scores. scores ! j = scores ! i \<longrightarrow> i \<le> j) \<and>
           logger (snd (sell_calls strategy client ticker purchase_price stock_qty strat_logger w)) =
             logger w @ [(INFO, Searching_for_calls ticker),
                         (INFO, Selling_call (c_symbol (call_options ! i)))] \<and>
           broker (snd (sell_calls strategy client ticker purchase_price stock_qty strat_logger w)) =
             snd (market_sell client (c_symbol (call_options ! i)) s2) \<and>
           fst (sell_calls strategy client ticker purchase_price stock_qty strat_logger w) =
             (case fst (market_sell client (c_symbol (call_options ! i)) s2) of
                Inl e \<Rightarrow> Inl (Raised e) | Inr u \<Rightarrow> Inr ())"
proof -
  have ne: "scores \<noteq> []" using assms(5,7) by auto
  obtain i where i: "argmax scores = Inr i" "i < length scores"
    "\<forall>j<length scores. scores ! j \<le> scores ! i" "\<forall>j<i. scores ! j < scores ! i"
    using argmax_first_max [OF ne] by blast
  have first: "\<forall>j<length scores. scores ! j = scores ! i \<longrightarrow> i \<le> j"
  proof (intro allI impI)
    fix j assume "j < length scores" "scores ! j = scores ! i"
    then show "i \<le> j" using i(4) [rule_format, of j] by (cases "j < i") auto
  qed
  have il: "i < length call_options" using i(2) assms(7) by simp
  have gi: "getitem call_options i = Inr (call_options ! i)"
    using il by (simp add: getitem_def)
  obtain r s3 where ms: "market_sell client (c_symbol (call_options ! i)) s2 = (r, s3)"
    by (cases "market_sell client (c_symbol (call_options ! i)) s2") auto
  have run: "logger (snd (sell_calls strategy client ticker purchase_price stock_qty strat_logger w)) =
             logger w @ [(INFO, Searching_for_calls ticker),
                         (INFO, Selling_call (c_symbol (call_options ! i)))] \<and>
           broker (snd (sell_calls strategy client ticker purchase_price stock_qty strat_logger w)) = s3 \<and>
           fst (sell_calls strategy client ticker purchase_price stock_qty strat_logger w) =
             (case r of Inl e \<Rightarrow> Inl (Raised e) | Inr u \<Rightarrow> Inr ())"
    using assms(1,2,3,5) assms(4) [symmetric] assms(6) [symmetric] i(1) gi ms
    by (cases r) (simp_all add: sell_calls_def Let_def say_def record_strat_def)
  show ?thesis
    using il i(3) first run ms by auto
qed

theorem sell_calls_first_maximum_witness:
  "sell_calls
     (example_strategy [] (\<lambda>s. if s = ''X'' then 5 else 9))
     (recording_client [] (Inr stocks) (Inr Map.empty)
        [\<lparr>oc_symbol = ''X''\<rparr>, \<lparr>oc_symbol = ''Y''\<rparr>, \<lparr>oc_symbol = ''Z''\<rparr>] [])
     ''AAPL'' 140 100 False world0 =
   (Inr (),
    \<lparr>broker = [Call_get_options_contracts [''AAPL''] ''call'', Call_market_sell ''Y''],
     logger = [(INFO, Searching_for_calls ''AAPL''), (INFO, Selling_call ''Y'')],
     strat_log = []\<rparr>) \<and>
   (\<exists>i<3. [5, 9, 9 :: real] ! i = 9 \<and>
      Call_market_sell
        (c_symbol ([\<lparr>c_symbol = ''X'', strike = 5\<rparr>, \<lparr>c_symbol = ''Y'', strike = 9\<rparr>,
                    \<lparr>c_symbol = ''Z'', strike = 9\<rparr>] ! i)) = Call_market_sell ''Y'')"
proof -
  let ?st = "example_strategy [] (\<lambda>s. if s = ''X'' then 5 else 9)"
  let ?ocs = "[\<lparr>oc_symbol = ''X''\<rparr>, \<lparr>oc_symbol = ''Y''\<rparr>, \<lparr>oc_symbol = ''Z''\<rparr>]"
  let ?c = "recording_client [] (Inr stocks) (Inr Map.empty) ?ocs []"
  let ?cs = "[\<lparr>c_symbol = ''X'', strike = 5\<rparr>, \<lparr>c_symbol = ''Y'', strike = 9\<rparr>,
              \<lparr>c_symbol = ''Z'', strike = 9\<rparr>]"
  let ?s1 = "[Call_get_options_contracts [''AAPL''] ''call'']"
  have h1: "(100::int) \<le> 100" by simp
  have h2: "get_options_contracts ?c [''AAPL''] ''call'' (broker world0) = (Inr ?ocs, ?s1)"
    by (simp add: recording_client_def world0_def)
  have h3: "from_contracts ?st ?c ?ocs ?s1 = (Inr ?cs, ?s1)"
    by (simp add: example_strategy_def)
  have h4: "?cs = filter_options ?st ?cs (Some 140)"
    by (simp add: example_strategy_def)
  have h5: "?cs \<noteq> []" by simp
  have h6: "[5, 9, 9] = score_options ?st ?cs"
    by (simp add: example_strategy_def)
  have h7: "length [5, 9, 9 :: real] = length ?cs" by simp
  have run: "sell_calls ?st ?c ''AAPL'' 140 100 False world0 =
     (Inr (),
      \<lparr>broker = [Call_get_options_contracts [''AAPL''] ''call'', Call_market_sell ''Y''],
       logger = [(INFO, Searching_for_calls ''AAPL''), (INFO, Selling_call ''Y'')],
       strat_log = []\<rparr>)"
    by (simp add: sell_calls_def Let_def example_strategy_def recording_client_def world0_def
        say_def argmax_def getitem_def)
  from sell_calls_first_maximum [OF h1 h2 h3 h4 h5 h6 h7, of False]
  obtain i where i: "i < length ?cs"
    "\<forall>j<length [5, 9, 9 :: real]. [5, 9, 9 :: real] ! j \<le> [5, 9, 9] ! i"
    "broker (snd (sell_calls ?st ?c ''AAPL'' 140 100 False world0)) =
       snd (market_sell ?c (c_symbol (?cs ! i)) ?s1)"
    by blast
  have nine: "[5, 9, 9 :: real] ! i = 9"
  proof -
    have "[5, 9, 9 :: real] ! 1 \<le> [5, 9, 9] ! i"
      using i(2) [rule_format, of 1] by simp
    moreover have "i = 0 \<or> i = 1 \<or> i = 2" using i(1) by auto
    ultimately show ?thesis by auto
  qed
  have sold: "Call_market_sell (c_symbol (?cs ! i)) = Call_market_sell ''Y''"
    using i(3) unfolding run by (simp add: recording_client_def)
  have i3: "i < 3" using i(1) by simp
  have "\<exists>i<3. [5, 9, 9 :: real] ! i = 9 \<and> Call_market_sell (c_symbol (?cs ! i)) = Call_market_sell ''Y''"
    using i3 nine sold by blast
  then show ?thesis using run by blast
qed

end
